theory Spec2Isabelle
  imports Complex_Main "HOL-Library.Log_Nat"
begin

section \<open>Plumbing pipe sizer: fixture-unit table and fluid-dynamic equations\<close>

text \<open>
  The development follows the two computational modules of the repository,
  \<^verbatim>\<open>gpm_and_fixture_units.py\<close> and \<^verbatim>\<open>fluid_dynamic_equations.py\<close>.

  A Python float is a real number, of type \<^typ>\<open>real\<close>. In the interpolation of fixture
  units the arithmetic ends in \<^verbatim>\<open>floor\<close>, where the rounding of a double can change the
  integer that is returned, so every operation there is rounded to the nearest double. In the
  fluid-dynamic equations, whose results are floats, rounding, overflow and the special values
  of IEEE doubles are abstracted away. Wherever Python arithmetic has no real number as its
  result (a division by zero), the model yields an error value instead.
\<close>

subsection \<open>Values and errors\<close>

text \<open>
  \<^verbatim>\<open>ZeroDivisionError\<close> is the exception of a division by zero on Python numbers.
  \<^verbatim>\<open>NonFinite\<close> stands for the \<^verbatim>\<open>nan\<close> and \<^verbatim>\<open>inf\<close> that numpy yields, without raising, for
  a square root of a negative number, a logarithm of a non-positive number or a division
  by a numpy zero: no real number is the result.
\<close>

datatype py_error = ZeroDivisionError | NonFinite

text \<open>
  \<^verbatim>\<open>interpolate_fixture_units\<close> returns either an \<^verbatim>\<open>int\<close> or a \<^verbatim>\<open>str\<close>; the two
  constructors keep the Python type of the returned object.
\<close>

datatype ret = Num int | Msg string

text \<open>Python's true division \<^verbatim>\<open>a / b\<close> on numbers.\<close>

definition py_truediv :: "real \<Rightarrow> real \<Rightarrow> py_error + real" where
  "py_truediv a b = (if b = 0 then Inl ZeroDivisionError else Inr (a / b))"

subsection \<open>The fixture-unit table\<close>

text \<open>A row is the tuple (GPM, tank fixture units, valve fixture units or \<^verbatim>\<open>None\<close>).\<close>

type_synonym row = "int \<times> int \<times> int option"

definition gpm_of :: "row \<Rightarrow> int" where
  "gpm_of r = fst r"

definition tank_of :: "row \<Rightarrow> int" where
  "tank_of r = fst (snd r)"

definition valve_of :: "row \<Rightarrow> int option" where
  "valve_of r = snd (snd r)"

definition fixture_data :: "row list" where
  "fixture_data = [
   (1, 0, None), (2, 1, None), (3, 3, None), (4, 4, None), (5, 6, None), (6, 7, None), (7, 8, None), (8, 10, None),
   (9, 12, None), (10, 13, None), (11, 15, None), (12, 16, None), (13, 18, None), (14, 20, None), (15, 21, None),
   (16, 23, None), (17, 24, None), (18, 26, None), (19, 28, None), (20, 30, None), (21, 32, None), (22, 34, Some 5),
   (23, 36, Some 6), (24, 39, Some 7), (25, 42, Some 8), (26, 44, Some 9), (27, 46, Some 10), (28, 49, Some 11), (29, 51, Some 12), (30, 54, Some 13),
   (31, 56, Some 14), (32, 58, Some 15), (33, 60, Some 16), (34, 63, Some 18), (35, 66, Some 20), (36, 69, Some 21), (37, 74, Some 23), (38, 78, Some 25),
   (39, 83, Some 26), (40, 86, Some 28), (41, 90, Some 30), (42, 95, Some 31), (43, 99, Some 33), (44, 103, Some 35), (45, 107, Some 37), (46, 111, Some 39),
   (47, 115, Some 42), (48, 119, Some 44), (49, 123, Some 46), (50, 127, Some 48), (51, 130, Some 50), (52, 135, Some 52), (53, 141, Some 54),
   (54, 146, Some 57), (55, 151, Some 60), (56, 155, Some 63), (57, 160, Some 66), (58, 165, Some 69), (59, 170, Some 73), (60, 175, Some 76),
   (62, 185, Some 82), (64, 195, Some 88), (66, 205, Some 95), (68, 215, Some 102), (70, 225, Some 108), (72, 236, Some 116), (74, 245, Some 124),
   (76, 254, Some 132), (78, 264, Some 140), (80, 275, Some 148), (82, 284, Some 158), (84, 294, Some 168), (86, 305, Some 176), (88, 315, Some 186),
   (90, 326, Some 195), (92, 337, Some 205), (94, 348, Some 214), (96, 359, Some 223), (98, 370, Some 234), (100, 380, Some 245), (105, 405, Some 270),
   (110, 431, Some 295), (115, 455, Some 329), (120, 479, Some 365), (125, 506, Some 396), (130, 533, Some 430), (135, 559, Some 460),
   (140, 585, Some 490), (145, 611, Some 521), (150, 638, Some 559), (155, 665, Some 596), (160, 692, Some 631), (165, 719, Some 666),
   (170, 748, Some 700), (175, 778, Some 739), (180, 809, Some 775), (185, 840, Some 811), (190, 874, Some 850), (200, 945, Some 931),
   (210, 1018, Some 1009), (220, 1091, Some 1091), (230, 1173, Some 1173), (240, 1254, Some 1254), (250, 1335, Some 1335), (260, 1418, Some 1418),
   (270, 1500, Some 1500), (280, 2583, Some 2583), (290, 1668, Some 1668), (300, 1755, Some 1755), (310, 1845, Some 1845), (320, 1926, Some 1926),
   (330, 2018, Some 2018), (340, 2110, Some 2110), (350, 2204, Some 2204), (360, 2298, Some 2298), (370, 2388, Some 2388), (380, 2480, Some 2480),
   (390, 2575, Some 2575), (400, 2670, Some 2670), (410, 2765, Some 2765), (420, 2862, Some 2862), (430, 2960, Some 2960), (440, 3060, Some 3060),
   (450, 3150, Some 3150), (500, 3620, Some 3620)]"

subsection \<open>Interpolation of fixture units\<close>

text \<open>
  \<^verbatim>\<open>str.lower()\<close>, on ASCII text: the letters \<^verbatim>\<open>A\<close> to \<^verbatim>\<open>Z\<close> (codes 65 to 90) move to
  \<^verbatim>\<open>a\<close> to \<^verbatim>\<open>z\<close>, every other character stays.
\<close>

definition lower_char :: "char \<Rightarrow> char" where
  "lower_char c =
     (let n = (of_char c :: nat) in if 65 \<le> n \<and> n \<le> 90 then char_of (n + 32) else c)"

definition lower :: "string \<Rightarrow> string" where
  "lower s = map lower_char s"

text \<open>
  Double-precision arithmetic. An operation on floats returns the double nearest to its exact
  result, a tie going to the even significand. \<^term>\<open>binade x\<close> is the exponent \<open>e\<close> with
  \<open>2\<^sup>e \<le> \<bar>x\<bar> < 2\<^bsup>e + 1\<^esup>\<close>; the doubles of that binade are the multiples of \<open>2\<^bsup>e - 52\<^esup>\<close>.
  The exponent is not bounded: the numbers of the interpolation stay far inside the normal
  range of doubles, where overflow and subnormal numbers play no part.
\<close>

definition round_half_even :: "real \<Rightarrow> int" where
  "round_half_even x =
     (let n = \<lfloor>x\<rfloor>; r = x - real_of_int n in
      if r < 1 / 2 then n
      else if 1 / 2 < r then n + 1
      else if even n then n else n + 1)"

definition binade :: "real \<Rightarrow> int" where
  "binade x =
     (if 1 \<le> \<bar>x\<bar> then bitlen \<lfloor>\<bar>x\<bar>\<rfloor> - 1 else - bitlen (\<lceil>1 / \<bar>x\<bar>\<rceil> - 1))"

definition fl :: "real \<Rightarrow> real" where
  "fl x =
     (if x = 0 then 0
      else let ulp = 2 powi (binade x - 52) in real_of_int (round_half_even (x / ulp)) * ulp)"

text \<open>
  The expression \<^verbatim>\<open>floor(v1 + (v2 - v1) * (gpm_input - gpm1) / (gpm2 - gpm1))\<close>, with
  Python's precedence: the product is divided first, then \<^verbatim>\<open>v1\<close> is added. \<^verbatim>\<open>v2 - v1\<close> and
  \<^verbatim>\<open>gpm2 - gpm1\<close> are differences of integers and exact; the subtraction of \<^verbatim>\<open>gpm1\<close>, the
  product, the quotient and the sum are float operations, each rounded.
\<close>

definition floor_interp :: "int \<Rightarrow> int \<Rightarrow> real \<Rightarrow> int \<Rightarrow> int \<Rightarrow> py_error + ret" where
  "floor_interp v1 v2 gpm_input gpm1 gpm2 =
     (case py_truediv (fl (real_of_int (v2 - v1) * fl (gpm_input - real_of_int gpm1)))
                      (real_of_int (gpm2 - gpm1)) of
        Inl e \<Rightarrow> Inl e
      | Inr q \<Rightarrow> Inr (Num \<lfloor>fl (real_of_int v1 + fl q)\<rfloor>))"

text \<open>The body of the loop once \<^verbatim>\<open>gpm1 <= gpm_input <= gpm2\<close> holds for the pair of rows.\<close>

definition bracket_result :: "row \<Rightarrow> row \<Rightarrow> real \<Rightarrow> string \<Rightarrow> py_error + ret" where
  "bracket_result r1 r2 gpm_input flush_type =
     (case r1 of (gpm1, tank1, valve1) \<Rightarrow>
      case r2 of (gpm2, tank2, valve2) \<Rightarrow>
        if lower flush_type = ''tank'' then floor_interp tank1 tank2 gpm_input gpm1 gpm2
        else if lower flush_type = ''valve'' then
          (if valve1 = None \<or> valve2 = None then
             (case valve1 of
                Some v \<Rightarrow> Inr (Num v)
              | None \<Rightarrow> Inr (Msg ''Out of range. Use next valid pipe size.''))
           else floor_interp (the valve1) (the valve2) gpm_input gpm1 gpm2)
        else Inr (Msg ''Error: Invalid flush type.''))"

text \<open>The chained comparison \<^verbatim>\<open>gpm1 <= gpm_input <= gpm2\<close> on a pair of rows.\<close>

definition brackets :: "row \<Rightarrow> row \<Rightarrow> real \<Rightarrow> bool" where
  "brackets r1 r2 gpm_input \<longleftrightarrow>
     real_of_int (gpm_of r1) \<le> gpm_input \<and> gpm_input \<le> real_of_int (gpm_of r2)"

text \<open>
  The loop \<^verbatim>\<open>for i in range(len(fixture_data) - 1)\<close> over the pairs of consecutive rows,
  as a recursion over the rows that are left; the first pair that brackets the input
  returns, and the loop falling through gives the last message.
\<close>

fun scan_rows :: "row list \<Rightarrow> real \<Rightarrow> string \<Rightarrow> py_error + ret" where
  "scan_rows (r1 # r2 # rest) gpm_input flush_type =
     (if brackets r1 r2 gpm_input
      then bracket_result r1 r2 gpm_input flush_type
      else scan_rows (r2 # rest) gpm_input flush_type)"
| "scan_rows rows gpm_input flush_type = Inr (Msg ''Error: Unable to calculate fixture units.'')"

definition interpolate_fixture_units :: "real \<Rightarrow> string \<Rightarrow> py_error + ret" where
  "interpolate_fixture_units gpm_input flush_type =
     (if gpm_input < real_of_int (gpm_of (hd fixture_data))
         \<or> gpm_input > real_of_int (gpm_of (last fixture_data))
      then Inr (Msg ''Out of Range.'')
      else scan_rows fixture_data gpm_input flush_type)"

subsection \<open>Fluid-dynamic equations\<close>

definition GRAVITY :: real where
  "GRAVITY = 32.174"

definition reynolds_num :: "real \<Rightarrow> real \<Rightarrow> real \<Rightarrow> py_error + real" where
  "reynolds_num velocity diam_inch kin_visc = py_truediv (velocity * (diam_inch / 12)) kin_visc"

text \<open>
  \<^verbatim>\<open>scipy.optimize.fsolve\<close> is a library routine outside the repository, so the root finder
  is a parameter of the function that calls it. What it reaches is the final iterate
  together with MINPACK's status \<^verbatim>\<open>ier\<close>; the source takes element \<^verbatim>\<open>[0]\<close> of the iterate.
  An exception of the function being solved passes through.
\<close>

record fsolve_info =
  sol :: real
  ier :: int

type_synonym root_finder = "(real \<Rightarrow> py_error + real) \<Rightarrow> real \<Rightarrow> py_error + fsolve_info"

text \<open>
  The local function \<^verbatim>\<open>colebrook_white(f)\<close>, with the variables it closes over as
  arguments. \<^verbatim>\<open>epsilon / (3.7 * D_ft)\<close> divides Python floats; the other operations are
  numpy's.
\<close>

definition colebrook_white :: "real \<Rightarrow> real \<Rightarrow> real \<Rightarrow> real \<Rightarrow> py_error + real" where
  "colebrook_white re epsilon D_ft f =
     (if D_ft = 0 then Inl ZeroDivisionError
      else if f \<le> 0 \<or> re * sqrt f = 0 then Inl NonFinite
      else
        (let arg = epsilon / (3.7 * D_ft) + 2.51 / (re * sqrt f) in
         if arg \<le> 0 then Inl NonFinite
         else Inr (1 / sqrt f + 2 * log 10 arg)))"

definition friction_factor_solver ::
    "root_finder \<Rightarrow> real \<Rightarrow> real \<Rightarrow> real \<Rightarrow> real \<Rightarrow> py_error + real" where
  "friction_factor_solver fsolve re epsilon diam_inch initial_guess =
     (let D_ft = diam_inch / 12 in
      if re < 2000 then py_truediv 64 re
      else
        (case fsolve (colebrook_white re epsilon D_ft) initial_guess of
           Inl e \<Rightarrow> Inl e
         | Inr info \<Rightarrow> Inr (sol info)))"

definition darcy_weisbach_pressure_drop :: "real \<Rightarrow> real \<Rightarrow> real \<Rightarrow> py_error + real" where
  "darcy_weisbach_pressure_drop f velocity diam_inch =
     (let D_ft = diam_inch / 12 in
      py_truediv (f * 100 * velocity\<^sup>2) (D_ft * 2 * GRAVITY))"

subsection \<open>Auxiliary notions for the statements\<close>

text \<open>
  The pair of rows at which the loop of \<^const>\<open>scan_rows\<close> returns: the first pair of
  consecutive rows that brackets the input (none when the loop falls through).
\<close>

fun first_bracket :: "row list \<Rightarrow> real \<Rightarrow> (row \<times> row) option" where
  "first_bracket (r1 # r2 # rest) g =
     (if brackets r1 r2 g then Some (r1, r2) else first_bracket (r2 # rest) g)"
| "first_bracket rows g = None"

text \<open>The three orderings of the table invariant, each over all pairs of consecutive rows.\<close>

fun flows_increasing :: "row list \<Rightarrow> bool" where
  "flows_increasing (r1 # r2 # rest) = (gpm_of r1 < gpm_of r2 \<and> flows_increasing (r2 # rest))"
| "flows_increasing rows = True"

fun tank_nondecreasing :: "row list \<Rightarrow> bool" where
  "tank_nondecreasing (r1 # r2 # rest) =
     (tank_of r1 \<le> tank_of r2 \<and> tank_nondecreasing (r2 # rest))"
| "tank_nondecreasing rows = True"

text \<open>Valve units are compared on the rows where they are defined; the others are skipped.\<close>

fun defined_valves :: "row list \<Rightarrow> int list" where
  "defined_valves [] = []"
| "defined_valves (r # rest) =
     (case valve_of r of None \<Rightarrow> defined_valves rest | Some v \<Rightarrow> v # defined_valves rest)"

fun nondecreasing :: "int list \<Rightarrow> bool" where
  "nondecreasing (a # b # rest) = (a \<le> b \<and> nondecreasing (b # rest))"
| "nondecreasing vs = True"

definition valve_nondecreasing :: "row list \<Rightarrow> bool" where
  "valve_nondecreasing rows = nondecreasing (defined_valves rows)"

text \<open>
  A property of all pairs of consecutive rows, and the two readings of the interpolated
  tank value on a pair of rows: with exact arithmetic, and with the float operations of
  \<^const>\<open>floor_interp\<close>.
\<close>

fun all_pairs :: "(row \<Rightarrow> row \<Rightarrow> bool) \<Rightarrow> row list \<Rightarrow> bool" where
  "all_pairs P (r1 # r2 # rest) = (P r1 r2 \<and> all_pairs P (r2 # rest))"
| "all_pairs P rows = True"

definition pair_in_bounds :: "row \<Rightarrow> row \<Rightarrow> bool" where
  "pair_in_bounds r1 r2 \<longleftrightarrow>
     gpm_of r1 < gpm_of r2 \<and> gpm_of r2 - gpm_of r1 \<le> 50 \<and>
     \<bar>tank_of r2 - tank_of r1\<bar> \<le> 1100 \<and> \<bar>tank_of r1\<bar> \<le> 4000"

definition tank_exact :: "row \<Rightarrow> row \<Rightarrow> real \<Rightarrow> real" where
  "tank_exact r1 r2 g =
     real_of_int (tank_of r1) +
     real_of_int (tank_of r2 - tank_of r1) * (g - real_of_int (gpm_of r1)) /
       real_of_int (gpm_of r2 - gpm_of r1)"

definition tank_double :: "row \<Rightarrow> row \<Rightarrow> real \<Rightarrow> real" where
  "tank_double r1 r2 g =
     fl (real_of_int (tank_of r1) +
         fl (fl (real_of_int (tank_of r2 - tank_of r1) * fl (g - real_of_int (gpm_of r1))) /
             real_of_int (gpm_of r2 - gpm_of r1)))"

text \<open>
  A root finder to put in the place of the parameter: it stops at the starting value with
  status 2.
\<close>

definition stalled_fsolve :: root_finder where
  "stalled_fsolve func x0 = Inr \<lparr>sol = x0, ier = 2\<rparr>"

section \<open>Rounding to double precision\<close>

text \<open>
  The rounding agrees with known doubles: 0.1 is \<open>3602879701896397 / 2\<^bsup>55\<^esup>\<close>, a third is
  \<open>6004799503160661 / 2\<^bsup>54\<^esup>\<close>, 36.4 is \<open>5122844576133939 / 2\<^bsup>47\<^esup>\<close>, and the tie
  \<open>71 - 2\<^bsup>-47\<^esup>\<close> goes to the even neighbour 71.
\<close>

lemma fl_known_doubles:
  "fl 0.1 = 3602879701896397 / 2 ^ 55"
  "fl (1 / 3) = 6004799503160661 / 2 ^ 54"
  "fl 36.4 = 5122844576133939 / 2 ^ 47"
  "fl (71 - 1 / 2 ^ 47) = 71"
  "fl 3620 = 3620"
  by code_simp+

text \<open>
  \<^const>\<open>binade\<close> is the exponent of the binade of its argument, and the relative error of a
  rounding is at most \<open>2\<^bsup>-53\<^esup>\<close>.
\<close>

lemma round_half_even_error: "\<bar>real_of_int (round_half_even z) - z\<bar> \<le> 1 / 2"
proof -
  have "real_of_int \<lfloor>z\<rfloor> \<le> z" "z < real_of_int \<lfloor>z\<rfloor> + 1" by linarith+
  then show ?thesis by (auto simp: round_half_even_def Let_def)
qed

lemma binade_lower:
  assumes "x \<noteq> 0"
  shows "2 powi binade x \<le> \<bar>x\<bar>"
proof (cases "1 \<le> \<bar>x\<bar>")
  case True
  define m where "m = \<lfloor>\<bar>x\<bar>\<rfloor>"
  have m: "0 < m" using True by (simp add: m_def)
  from bitlen_bounds[OF m] have lo: "2 ^ nat (bitlen m - 1) \<le> m" by simp
  have k: "0 \<le> bitlen m - 1" using m by (simp add: bitlen_alt_def)
  have "real_of_int (2 ^ nat (bitlen m - 1)) \<le> real_of_int m" using lo by (simp only: of_int_le_iff)
  also have "\<dots> \<le> \<bar>x\<bar>" by (simp add: m_def)
  finally have "2 ^ nat (bitlen m - 1) \<le> \<bar>x\<bar>" by simp
  moreover have "binade x = bitlen m - 1" using True by (simp add: binade_def m_def)
  ultimately show ?thesis using k by (simp add: power_int_def)
next
  case False
  define y where "y = 1 / \<bar>x\<bar>"
  define m where "m = \<lceil>y\<rceil> - 1"
  have xpos: "0 < \<bar>x\<bar>" using assms by simp
  have y1: "1 < y" using False xpos by (simp add: y_def)
  then have "2 \<le> \<lceil>y\<rceil>" by linarith
  then have m: "0 < m" by (simp add: m_def)
  from bitlen_bounds[OF m] have hi: "m < 2 ^ nat (bitlen m)" by simp
  have K: "0 < bitlen m" using m by (simp add: bitlen_alt_def)
  have "m + 1 \<le> 2 ^ nat (bitlen m)" using hi by simp
  then have "real_of_int (m + 1) \<le> real_of_int (2 ^ nat (bitlen m))" by (simp only: of_int_le_iff)
  moreover have "y \<le> real_of_int (m + 1)" by (simp add: m_def)
  ultimately have "y \<le> 2 ^ nat (bitlen m)" by simp
  then have "1 / \<bar>x\<bar> \<le> 2 ^ nat (bitlen m)" by (simp add: y_def)
  then have "1 \<le> 2 ^ nat (bitlen m) * \<bar>x\<bar>" using xpos by (simp add: field_simps)
  then have "1 / 2 ^ nat (bitlen m) \<le> \<bar>x\<bar>" by (simp add: field_simps)
  moreover have "binade x = - bitlen m" using False by (simp add: binade_def m_def y_def)
  moreover have "(2::real) powi (- bitlen m) = 1 / 2 ^ nat (bitlen m)"
    using K by (simp add: power_int_def field_simps)
  ultimately show ?thesis by simp
qed

lemma binade_upper:
  assumes "x \<noteq> 0"
  shows "\<bar>x\<bar> < 2 powi (binade x + 1)"
proof (cases "1 \<le> \<bar>x\<bar>")
  case True
  define m where "m = \<lfloor>\<bar>x\<bar>\<rfloor>"
  have m: "0 < m" using True by (simp add: m_def)
  from bitlen_bounds[OF m] have hi: "m < 2 ^ nat (bitlen m)" by simp
  have K: "0 < bitlen m" using m by (simp add: bitlen_alt_def)
  have "m + 1 \<le> 2 ^ nat (bitlen m)" using hi by simp
  then have "real_of_int (m + 1) \<le> real_of_int (2 ^ nat (bitlen m))" by (simp only: of_int_le_iff)
  moreover have "\<bar>x\<bar> < real_of_int (m + 1)" unfolding m_def by linarith
  ultimately have "\<bar>x\<bar> < 2 ^ nat (bitlen m)" by simp
  moreover have "binade x + 1 = bitlen m" using True by (simp add: binade_def m_def)
  ultimately show ?thesis using K by (simp add: power_int_def)
next
  case False
  define y where "y = 1 / \<bar>x\<bar>"
  define m where "m = \<lceil>y\<rceil> - 1"
  have xpos: "0 < \<bar>x\<bar>" using assms by simp
  have y1: "1 < y" using False xpos by (simp add: y_def)
  then have "2 \<le> \<lceil>y\<rceil>" by linarith
  then have m: "0 < m" by (simp add: m_def)
  from bitlen_bounds[OF m] have lo: "2 ^ nat (bitlen m - 1) \<le> m" by simp
  have K: "0 < bitlen m" using m by (simp add: bitlen_alt_def)
  have "real_of_int (2 ^ nat (bitlen m - 1)) \<le> real_of_int m" using lo by (simp only: of_int_le_iff)
  then have "(2::real) ^ nat (bitlen m - 1) \<le> real_of_int m" by simp
  moreover have "real_of_int m < y" unfolding m_def by linarith
  ultimately have "2 ^ nat (bitlen m - 1) < y" by linarith
  then have "2 ^ nat (bitlen m - 1) < 1 / \<bar>x\<bar>" by (simp add: y_def)
  then have "2 ^ nat (bitlen m - 1) * \<bar>x\<bar> < 1" using xpos by (simp add: field_simps)
  then have "\<bar>x\<bar> < 1 / 2 ^ nat (bitlen m - 1)" by (simp add: field_simps)
  moreover have "binade x + 1 = - (bitlen m - 1)" using False by (simp add: binade_def m_def y_def)
  moreover have "(2::real) powi (- (bitlen m - 1)) = 1 / 2 ^ nat (bitlen m - 1)"
  proof (cases "bitlen m = 1")
    case True
    then show ?thesis by simp
  next
    case False
    with K have "0 < bitlen m - 1" by simp
    then show ?thesis by (simp add: power_int_def field_simps)
  qed
  ultimately show ?thesis by simp
qed

lemma fl_error: "\<bar>fl x - x\<bar> \<le> \<bar>x\<bar> / 2 ^ 53"
proof (cases "x = 0")
  case True
  then show ?thesis by (simp add: fl_def)
next
  case False
  define u :: real where "u = 2 powi (binade x - 52)"
  have upos: "0 < u" by (simp add: u_def)
  have "fl x = real_of_int (round_half_even (x / u)) * u"
    using False by (simp add: fl_def u_def Let_def)
  then have "fl x - x = (real_of_int (round_half_even (x / u)) - x / u) * u"
    using upos by (simp add: field_simps)
  then have "\<bar>fl x - x\<bar> = \<bar>real_of_int (round_half_even (x / u)) - x / u\<bar> * u"
    using upos by (simp add: abs_mult)
  also have "\<dots> \<le> (1 / 2) * u"
    using round_half_even_error[of "x / u"] upos by (intro mult_right_mono) simp_all
  also have "(1 / 2) * u = 2 powi binade x / 2 ^ 53"
    by (simp add: u_def power_int_diff)
  also have "\<dots> \<le> \<bar>x\<bar> / 2 ^ 53"
    using binade_lower[OF False] by (simp add: divide_right_mono)
  finally show ?thesis .
qed

lemma fl_close:
  assumes "\<bar>x\<bar> \<le> M"
  shows "\<bar>fl x - x\<bar> \<le> M / 2 ^ 53"
proof -
  have "\<bar>fl x - x\<bar> \<le> \<bar>x\<bar> / 2 ^ 53" by (rule fl_error)
  also have "\<dots> \<le> M / 2 ^ 53" using assms by (simp add: divide_right_mono)
  finally show ?thesis .
qed

lemma double_interp_close:
  fixes A dv dg v1 :: real
  assumes A: "0 \<le> A" "A \<le> 50"
    and dv: "\<bar>dv\<bar> \<le> 1100"
    and dg: "1 \<le> dg"
    and v1: "\<bar>v1\<bar> \<le> 4000"
  shows "\<bar>fl (v1 + fl (fl (dv * fl A) / dg)) - (v1 + dv * A / dg)\<bar> < 1"
proof -
  define e :: real where "e = 1 / 2 ^ 53"
  have e: "0 < e" "e \<le> 1 / 1000000" by (simp_all add: e_def)
  define a where "a = fl A"
  define P where "P = dv * a"
  define b where "b = fl P"
  define Q where "Q = b / dg"
  define c where "c = fl Q"
  define S where "S = v1 + c"
  define r where "r = fl S"
  have a1: "\<bar>a - A\<bar> \<le> 50 * e"
    using fl_close[of A 50] A by (simp add: a_def e_def)
  then have a2: "\<bar>a\<bar> \<le> 51" using A e by linarith
  have "\<bar>P\<bar> = \<bar>dv\<bar> * \<bar>a\<bar>" by (simp add: P_def abs_mult)
  also have "\<dots> \<le> 1100 * 51" using dv a2 by (intro mult_mono) simp_all
  finally have P2: "\<bar>P\<bar> \<le> 56100" by simp
  have "\<bar>P - dv * A\<bar> = \<bar>dv\<bar> * \<bar>a - A\<bar>"
    by (simp add: P_def abs_mult[symmetric] right_diff_distrib)
  also have "\<dots> \<le> 1100 * (50 * e)" using dv a1 by (intro mult_mono) simp_all
  finally have P1: "\<bar>P - dv * A\<bar> \<le> 55000 * e" by simp
  have b1: "\<bar>b - P\<bar> \<le> 56100 * e"
    using fl_close[OF P2] by (simp add: b_def e_def)
  then have b2: "\<bar>b\<bar> \<le> 56101" using P2 e by linarith
  have b3: "\<bar>b - dv * A\<bar> \<le> 111100 * e" using b1 P1 by linarith
  have dgpos: "0 < dg" using dg by simp
  have "\<bar>Q\<bar> = \<bar>b\<bar> / dg" using dgpos by (simp add: Q_def)
  also have "\<dots> \<le> \<bar>b\<bar> / 1" using dg by (intro divide_left_mono) simp_all
  finally have Q2: "\<bar>Q\<bar> \<le> 56101" using b2 by simp
  have "\<bar>Q - dv * A / dg\<bar> = \<bar>b - dv * A\<bar> / dg"
    using dgpos by (simp add: Q_def diff_divide_distrib[symmetric])
  also have "\<dots> \<le> \<bar>b - dv * A\<bar> / 1" using dg by (intro divide_left_mono) simp_all
  finally have Q1: "\<bar>Q - dv * A / dg\<bar> \<le> 111100 * e" using b3 by simp
  have c1: "\<bar>c - Q\<bar> \<le> 56101 * e"
    using fl_close[OF Q2] by (simp add: c_def e_def)
  then have c2: "\<bar>c\<bar> \<le> 56102" using Q2 e by linarith
  have S2: "\<bar>S\<bar> \<le> 60102" using c2 v1 by (simp add: S_def)
  have r1: "\<bar>r - S\<bar> \<le> 60102 * e"
    using fl_close[OF S2] by (simp add: r_def e_def)
  have "\<bar>r - (v1 + dv * A / dg)\<bar> \<le> 227303 * e"
    using r1 c1 Q1 by (simp add: S_def)
  also have "\<dots> < 1" using e by simp
  finally show ?thesis by (simp add: r_def S_def c_def Q_def b_def P_def a_def)
qed

lemma floor_close:
  fixes r E :: real
  assumes "\<bar>r - E\<bar> < 1"
  shows "\<bar>\<lfloor>r\<rfloor> - \<lfloor>E\<rfloor>\<bar> \<le> 1"
  using assms by linarith

section \<open>Properties of the fixture-unit interpolation\<close>

subsection \<open>The loop and the pair of rows it selects\<close>

lemma scan_rows_first_bracket:
  "scan_rows rows g ft =
     (case first_bracket rows g of
        None \<Rightarrow> Inr (Msg ''Error: Unable to calculate fixture units.'')
      | Some (r1, r2) \<Rightarrow> bracket_result r1 r2 g ft)"
  by (induction rows g ft rule: scan_rows.induct) simp_all

lemma first_bracket_exists:
  "2 \<le> length rows \<Longrightarrow> real_of_int (gpm_of (hd rows)) \<le> g \<Longrightarrow>
     g \<le> real_of_int (gpm_of (last rows)) \<Longrightarrow> first_bracket rows g \<noteq> None"
proof (induction rows g rule: first_bracket.induct)
  case (1 r1 r2 rest g)
  show ?case
  proof (cases "brackets r1 r2 g")
    case True
    then show ?thesis by simp
  next
    case False
    have step: "first_bracket (r1 # r2 # rest) g = first_bracket (r2 # rest) g"
      using False by simp
    from False 1(3) have above: "real_of_int (gpm_of r2) < g"
      by (simp add: brackets_def)
    have nonempty: "rest \<noteq> []"
    proof
      assume "rest = []"
      with 1(4) above show False by simp
    qed
    have "first_bracket (r2 # rest) g \<noteq> None"
    proof (rule 1(1)[OF False])
      show "2 \<le> length (r2 # rest)" using nonempty by (cases rest) simp_all
      show "real_of_int (gpm_of (hd (r2 # rest))) \<le> g" using above by simp
      show "g \<le> real_of_int (gpm_of (last (r2 # rest)))" using 1(4) by simp
    qed
    then show ?thesis unfolding step .
  qed
qed simp_all

lemma first_bracket_brackets:
  "first_bracket rows g = Some (r1, r2) \<Longrightarrow> brackets r1 r2 g"
  by (induction rows g rule: first_bracket.induct) (auto split: if_splits)

lemma first_bracket_index:
  "first_bracket rows g = Some (r1, r2) \<Longrightarrow>
     \<exists>i. Suc i < length rows \<and> r1 = rows ! i \<and> r2 = rows ! Suc i \<and>
         (\<forall>j<i. \<not> brackets (rows ! j) (rows ! Suc j) g)"
proof (induction rows g rule: first_bracket.induct)
  case (1 a b rest g)
  show ?case
  proof (cases "brackets a b g")
    case True
    with 1(2) have "r1 = a" "r2 = b" by simp_all
    then show ?thesis by (intro exI[of _ 0]) simp
  next
    case False
    with 1(2) have "first_bracket (b # rest) g = Some (r1, r2)" by simp
    from 1(1)[OF False this] obtain i where i: "Suc i < length (b # rest)"
      "r1 = (b # rest) ! i" "r2 = (b # rest) ! Suc i"
      "\<forall>j<i. \<not> brackets ((b # rest) ! j) ((b # rest) ! Suc j) g"
      by blast
    have "\<forall>j<Suc i. \<not> brackets ((a # b # rest) ! j) ((a # b # rest) ! Suc j) g"
    proof (intro allI impI)
      fix j assume "j < Suc i"
      then show "\<not> brackets ((a # b # rest) ! j) ((a # b # rest) ! Suc j) g"
        using False i(4) by (cases j) auto
    qed
    with i(1,2,3) show ?thesis by (intro exI[of _ "Suc i"]) simp
  qed
qed simp_all

lemma first_bracket_increasing:
  "first_bracket rows g = Some (r1, r2) \<Longrightarrow> flows_increasing rows \<Longrightarrow> gpm_of r1 < gpm_of r2"
  by (induction rows g rule: first_bracket.induct) (auto split: if_splits)

lemma flows_increasing_sorted:
  "flows_increasing rows \<Longrightarrow> sorted_wrt (<) (map gpm_of rows)"
proof (induction rows rule: flows_increasing.induct)
  case (1 r1 r2 rest)
  then have s: "sorted_wrt (<) (map gpm_of (r2 # rest))" and lt: "gpm_of r1 < gpm_of r2" by simp_all
  from s have "\<forall>y\<in>set (map gpm_of rest). gpm_of r2 < y" by simp
  with lt have "\<forall>y\<in>set (map gpm_of (r2 # rest)). gpm_of r1 < y" by auto
  with s show ?case by simp
qed simp_all

lemma first_bracket_at_breakpoint:
  "sorted_wrt (<) (map gpm_of rows) \<Longrightarrow> 0 < i \<Longrightarrow> i < length rows \<Longrightarrow>
     first_bracket rows (real_of_int (gpm_of (rows ! i))) = Some (rows ! (i - 1), rows ! i)"
proof (induction rows arbitrary: i)
  case Nil
  then show ?case by simp
next
  case (Cons a rows)
  show ?case
  proof (cases rows)
    case Nil
    with Cons.prems show ?thesis by simp
  next
    case (Cons b rest)
    show ?thesis
    proof (cases "i = 1")
      case True
      have "gpm_of a < gpm_of b" using Cons.prems(1) Cons by simp
      with True Cons show ?thesis by (simp add: brackets_def)
    next
      case False
      with Cons.prems obtain k where k: "i = Suc k" "0 < k" "k < length rows"
        by (cases i) auto
      have "gpm_of b < gpm_of (rows ! k)"
        using Cons.prems(1) Cons k by (cases k) (auto)
      then have nb: "\<not> brackets a b (real_of_int (gpm_of (rows ! k)))" by (simp add: brackets_def)
      have "sorted_wrt (<) (map gpm_of rows)" using Cons.prems(1) by simp
      from Cons.IH[OF this k(2,3)] have "first_bracket rows (real_of_int (gpm_of (rows ! k))) = Some (rows ! (k - 1), rows ! k)" .
      with nb k Cons show ?thesis by (cases k) auto
    qed
  qed
qed

lemma fixture_data_flows_increasing: "flows_increasing fixture_data"
  by code_simp

lemma fixture_data_hd: "gpm_of (hd fixture_data) = 1"
  by code_simp

lemma fixture_data_last: "gpm_of (last fixture_data) = 500"
  by code_simp

lemma fixture_data_length: "length fixture_data = 125"
  by code_simp

subsection \<open>The function on the table\<close>

lemma first_bracket_in_range:
  assumes "1 \<le> g" "g \<le> 500"
  obtains r1 r2 where "first_bracket fixture_data g = Some (r1, r2)"
proof -
  have "2 \<le> length fixture_data" by (simp add: fixture_data_length)
  moreover have "real_of_int (gpm_of (hd fixture_data)) \<le> g"
    using assms(1) by (simp add: fixture_data_hd)
  moreover have "g \<le> real_of_int (gpm_of (last fixture_data))"
    using assms(2) by (simp add: fixture_data_last)
  ultimately have "first_bracket fixture_data g \<noteq> None"
    by (rule first_bracket_exists)
  then obtain p where "first_bracket fixture_data g = Some p" by blast
  then show thesis using that by (cases p) blast
qed

lemma interpolate_in_range:
  assumes "1 \<le> g" "g \<le> 500" "first_bracket fixture_data g = Some (r1, r2)"
  shows "interpolate_fixture_units g ft = bracket_result r1 r2 g ft"
proof -
  have "\<not> (g < real_of_int (gpm_of (hd fixture_data)) \<or> g > real_of_int (gpm_of (last fixture_data)))"
    using assms(1,2) by (simp add: fixture_data_hd fixture_data_last)
  then have "interpolate_fixture_units g ft = scan_rows fixture_data g ft"
    by (simp only: interpolate_fixture_units_def if_False)
  also have "\<dots> = bracket_result r1 r2 g ft"
    by (simp add: scan_rows_first_bracket assms(3))
  finally show ?thesis .
qed

lemma interpolate_out_of_range:
  assumes "g < 1 \<or> 500 < g"
  shows "interpolate_fixture_units g ft = Inr (Msg ''Out of Range.'')"
proof -
  have "g < real_of_int (gpm_of (hd fixture_data)) \<or> g > real_of_int (gpm_of (last fixture_data))"
    using assms by (simp add: fixture_data_hd fixture_data_last)
  then show ?thesis by (simp only: interpolate_fixture_units_def if_True)
qed

lemma floor_interp_increasing:
  "gpm1 < gpm2 \<Longrightarrow> floor_interp v1 v2 g gpm1 gpm2 =
     Inr (Num \<lfloor>fl (real_of_int v1 +
                    fl (fl (real_of_int (v2 - v1) * fl (g - real_of_int gpm1)) /
                        real_of_int (gpm2 - gpm1)))\<rfloor>)"
  by (simp add: floor_interp_def py_truediv_def)

lemma first_bracket_all_pairs:
  "first_bracket rows g = Some (r1, r2) \<Longrightarrow> all_pairs P rows \<Longrightarrow> P r1 r2"
  by (induction rows g rule: first_bracket.induct) (auto split: if_splits)

lemma fixture_data_pairs_in_bounds: "all_pairs pair_in_bounds fixture_data"
  by code_simp

lemma bracket_result_tank:
  "lower ft = ''tank'' \<Longrightarrow>
     bracket_result r1 r2 g ft = floor_interp (tank_of r1) (tank_of r2) g (gpm_of r1) (gpm_of r2)"
  by (cases r1; cases r2) (simp add: bracket_result_def tank_of_def gpm_of_def)

lemma lower_tank: "lower ''tank'' = ''tank''" by code_simp
lemma lower_valve: "lower ''valve'' = ''valve''" by code_simp

lemma bracket_result_valve:
  "lower ft = ''valve'' \<Longrightarrow>
     bracket_result r1 r2 g ft =
       (if valve_of r1 = None \<or> valve_of r2 = None then
          (case valve_of r1 of
             Some v \<Rightarrow> Inr (Num v)
           | None \<Rightarrow> Inr (Msg ''Out of range. Use next valid pipe size.''))
        else floor_interp (the (valve_of r1)) (the (valve_of r2)) g (gpm_of r1) (gpm_of r2))"
  by (cases r1; cases r2) (simp add: bracket_result_def valve_of_def gpm_of_def)

lemma bracket_result_invalid:
  "lower ft \<noteq> ''tank'' \<Longrightarrow> lower ft \<noteq> ''valve'' \<Longrightarrow>
     bracket_result r1 r2 g ft = Inr (Msg ''Error: Invalid flush type.'')"
  by (cases r1; cases r2) (simp add: bracket_result_def)

subsection \<open>Tank mode\<close>

text \<open>
  Claim C4 says that for every flow within the range of the table tank mode returns
  \<open>floor (v1 + (v2 - v1) * (g - gpm1) / (gpm2 - gpm1))\<close> over a bracketing pair of rows. At
  the double 36.4, which is \<open>5122844576133939 / 2\<^bsup>47\<^esup>\<close> and lies strictly between the rows
  of 36 and 37 GPM with tank values 69 and 74, the exact value of the formula is
  \<open>71 - 2\<^bsup>-47\<^esup>\<close> with floor 70, but the sum \<open>69 + (2 - 2\<^bsup>-47\<^esup>)\<close> rounds to the double 71 and
  the function returns 71.
\<close>

theorem tank_interpolation_rounds_up_at_36_4:
  "fl 36.4 = 5122844576133939 / 2 ^ 47 \<and>
   fixture_data ! 35 = (36, 69, Some 21) \<and>
   fixture_data ! 36 = (37, 74, Some 23) \<and>
   first_bracket fixture_data (5122844576133939 / 2 ^ 47) =
     Some (fixture_data ! 35, fixture_data ! 36) \<and>
   interpolate_fixture_units (5122844576133939 / 2 ^ 47) ''tank'' = Inr (Num 71) \<and>
   \<lfloor>tank_exact (fixture_data ! 35) (fixture_data ! 36) (5122844576133939 / 2 ^ 47)\<rfloor> = 70 \<and>
   \<lfloor>69 + (74 - 69) * (5122844576133939 / 2 ^ 47 - 36) / (37 - 36) :: real\<rfloor> = 70"
proof (intro conjI)
  show "fl 36.4 = 5122844576133939 / 2 ^ 47" by code_simp
  show "fixture_data ! 35 = (36, 69, Some 21)" by code_simp
  show "fixture_data ! 36 = (37, 74, Some 23)" by code_simp
  show "first_bracket fixture_data (5122844576133939 / 2 ^ 47) =
      Some (fixture_data ! 35, fixture_data ! 36)"
    by code_simp
  show "interpolate_fixture_units (5122844576133939 / 2 ^ 47) ''tank'' = Inr (Num 71)"
    by code_simp
  show "\<lfloor>tank_exact (fixture_data ! 35) (fixture_data ! 36) (5122844576133939 / 2 ^ 47)\<rfloor> = 70"
    by code_simp
  show "\<lfloor>69 + (74 - 69) * (5122844576133939 / 2 ^ 47 - 36) / (37 - 36) :: real\<rfloor> = 70"
    by code_simp
qed

text \<open>
  Claim C4, amended. For every flow \<open>g\<close> within the range of the table, from 1 to 500 GPM,
  tank mode finds a pair of consecutive rows \<open>i\<close>, \<open>i + 1\<close> whose flows bracket \<open>g\<close> and returns
  the floor of \<open>v1 + (v2 - v1) * (g - gpm1) / (gpm2 - gpm1)\<close> over the tank column of that
  pair as double-precision arithmetic evaluates it, each operation rounded to the nearest
  double. That integer differs by at most one from the floor of the exact value. The result
  is 0 at 1 GPM, 3620 at 500 GPM and 35 at 22.5 GPM.
\<close>

theorem tank_interpolation_double:
  "(1 \<le> g \<and> g \<le> 500 \<longrightarrow>
      (\<exists>i. Suc i < length fixture_data \<and>
           real_of_int (gpm_of (fixture_data ! i)) \<le> g \<and>
           g \<le> real_of_int (gpm_of (fixture_data ! Suc i)) \<and>
           interpolate_fixture_units g ''tank'' =
             Inr (Num \<lfloor>tank_double (fixture_data ! i) (fixture_data ! Suc i) g\<rfloor>) \<and>
           \<bar>\<lfloor>tank_double (fixture_data ! i) (fixture_data ! Suc i) g\<rfloor> -
            \<lfloor>tank_exact (fixture_data ! i) (fixture_data ! Suc i) g\<rfloor>\<bar> \<le> 1)) \<and>
   interpolate_fixture_units 1 ''tank'' = Inr (Num 0) \<and>
   interpolate_fixture_units 500 ''tank'' = Inr (Num 3620) \<and>
   interpolate_fixture_units 22.5 ''tank'' = Inr (Num 35)"
proof (intro conjI impI)
  assume range: "1 \<le> g \<and> g \<le> 500"
  then obtain r1 r2 where fb: "first_bracket fixture_data g = Some (r1, r2)"
    using first_bracket_in_range by blast
  from first_bracket_index[OF fb] obtain i where i: "Suc i < length fixture_data"
    "r1 = fixture_data ! i" "r2 = fixture_data ! Suc i" by blast
  have br: "brackets r1 r2 g" using fb by (rule first_bracket_brackets)
  have "pair_in_bounds r1 r2"
    using fb fixture_data_pairs_in_bounds by (rule first_bracket_all_pairs)
  then have lt: "gpm_of r1 < gpm_of r2" and gap: "gpm_of r2 - gpm_of r1 \<le> 50"
    and dv: "\<bar>tank_of r2 - tank_of r1\<bar> \<le> 1100" and v1: "\<bar>tank_of r1\<bar> \<le> 4000"
    by (simp_all add: pair_in_bounds_def)
  have "interpolate_fixture_units g ''tank'' = bracket_result r1 r2 g ''tank''"
    using range fb by (simp add: interpolate_in_range)
  also have "\<dots> = floor_interp (tank_of r1) (tank_of r2) g (gpm_of r1) (gpm_of r2)"
    by (simp add: bracket_result_tank lower_tank)
  also have "\<dots> = Inr (Num \<lfloor>tank_double r1 r2 g\<rfloor>)"
    unfolding tank_double_def using lt by (rule floor_interp_increasing)
  finally have res: "interpolate_fixture_units g ''tank'' = Inr (Num \<lfloor>tank_double r1 r2 g\<rfloor>)" .
  have A: "0 \<le> g - real_of_int (gpm_of r1)" "g - real_of_int (gpm_of r1) \<le> 50"
    using br gap by (simp_all add: brackets_def)
  have "\<bar>real_of_int (tank_of r2 - tank_of r1)\<bar> \<le> 1100"
    using dv by linarith
  moreover have "1 \<le> real_of_int (gpm_of r2 - gpm_of r1)" using lt by simp
  moreover have "\<bar>real_of_int (tank_of r1)\<bar> \<le> 4000" using v1 by linarith
  ultimately have "\<bar>tank_double r1 r2 g - tank_exact r1 r2 g\<bar> < 1"
    unfolding tank_double_def tank_exact_def using A by (intro double_interp_close)
  then have close: "\<bar>\<lfloor>tank_double r1 r2 g\<rfloor> - \<lfloor>tank_exact r1 r2 g\<rfloor>\<bar> \<le> 1"
    by (rule floor_close)
  from i br res close show "\<exists>i. Suc i < length fixture_data \<and>
           real_of_int (gpm_of (fixture_data ! i)) \<le> g \<and>
           g \<le> real_of_int (gpm_of (fixture_data ! Suc i)) \<and>
           interpolate_fixture_units g ''tank'' =
             Inr (Num \<lfloor>tank_double (fixture_data ! i) (fixture_data ! Suc i) g\<rfloor>) \<and>
           \<bar>\<lfloor>tank_double (fixture_data ! i) (fixture_data ! Suc i) g\<rfloor> -
            \<lfloor>tank_exact (fixture_data ! i) (fixture_data ! Suc i) g\<rfloor>\<bar> \<le> 1"
    unfolding brackets_def by (intro exI[of _ i]) simp
next
  show "interpolate_fixture_units 1 ''tank'' = Inr (Num 0)" by code_simp
next
  show "interpolate_fixture_units 500 ''tank'' = Inr (Num 3620)" by code_simp
next
  show "interpolate_fixture_units 22.5 ''tank'' = Inr (Num 35)" by code_simp
qed

theorem tank_interpolation_double_witness:
  "(1::real) \<le> 22.5 \<and> (22.5::real) \<le> 500 \<and>
   (\<exists>i. Suc i < length fixture_data \<and>
        real_of_int (gpm_of (fixture_data ! i)) \<le> 22.5 \<and>
        22.5 \<le> real_of_int (gpm_of (fixture_data ! Suc i)) \<and>
        interpolate_fixture_units 22.5 ''tank'' =
          Inr (Num \<lfloor>tank_double (fixture_data ! i) (fixture_data ! Suc i) 22.5\<rfloor>) \<and>
        \<bar>\<lfloor>tank_double (fixture_data ! i) (fixture_data ! Suc i) 22.5\<rfloor> -
         \<lfloor>tank_exact (fixture_data ! i) (fixture_data ! Suc i) 22.5\<rfloor>\<bar> \<le> 1)"
proof -
  have h: "(1::real) \<le> 22.5 \<and> (22.5::real) \<le> 500" by simp
  from tank_interpolation_double [of "22.5"] h show ?thesis by blast
qed

lemma fixture_data_sorted: "sorted_wrt (<) (map gpm_of fixture_data)"
  using fixture_data_flows_increasing by (rule flows_increasing_sorted)

lemma first_bracket_of_index:
  "Suc i < length rows \<Longrightarrow> brackets (rows ! i) (rows ! Suc i) g \<Longrightarrow>
     \<forall>j<i. \<not> brackets (rows ! j) (rows ! Suc j) g \<Longrightarrow>
     first_bracket rows g = Some (rows ! i, rows ! Suc i)"
proof (induction rows g arbitrary: i rule: first_bracket.induct)
  case (1 a b rest g)
  show ?case
  proof (cases i)
    case 0
    with 1(3) show ?thesis by simp
  next
    case (Suc k)
    with 1(4) have nb: "\<not> brackets a b g" by auto
    have "first_bracket (b # rest) g = Some ((b # rest) ! k, (b # rest) ! Suc k)"
    proof (rule 1(1)[OF nb])
      show "Suc k < length (b # rest)" using 1(2) Suc by simp
      show "brackets ((b # rest) ! k) ((b # rest) ! Suc k) g" using 1(3) Suc by simp
      show "\<forall>j<k. \<not> brackets ((b # rest) ! j) ((b # rest) ! Suc j) g"
      proof (intro allI impI)
        fix j assume "j < k"
        then have "Suc j < i" using Suc by simp
        with 1(4) have "\<not> brackets ((a # b # rest) ! Suc j) ((a # b # rest) ! Suc (Suc j)) g"
          by blast
        then show "\<not> brackets ((b # rest) ! j) ((b # rest) ! Suc j) g" by simp
      qed
    qed
    with nb Suc show ?thesis by simp
  qed
qed simp_all

lemma fixture_data_nth_gpm:
  "k < length fixture_data \<Longrightarrow> map gpm_of fixture_data ! k = gpm_of (fixture_data ! k)"
  by simp

lemma fixture_data_flow_less:
  assumes "j < k" "k < length fixture_data"
  shows "gpm_of (fixture_data ! j) < gpm_of (fixture_data ! k)"
proof -
  have k: "k < length (map gpm_of fixture_data)" using assms(2) by simp
  have "map gpm_of fixture_data ! j < map gpm_of fixture_data ! k"
    using fixture_data_sorted assms(1) k by (rule sorted_wrt_nth_less)
  moreover have "map gpm_of fixture_data ! j = gpm_of (fixture_data ! j)"
    using assms by (intro nth_map) simp
  moreover have "map gpm_of fixture_data ! k = gpm_of (fixture_data ! k)"
    using assms by (intro nth_map) simp
  ultimately show ?thesis by simp
qed

lemma fixture_data_flow_bounds:
  assumes "k < length fixture_data"
  shows "1 \<le> gpm_of (fixture_data ! k) \<and> gpm_of (fixture_data ! k) \<le> 500"
proof -
  have "list_all (\<lambda>r. 1 \<le> gpm_of r \<and> gpm_of r \<le> 500) fixture_data" by code_simp
  with assms show ?thesis by (simp add: list_all_length)
qed

lemma low_rows_no_valve:
  assumes "k \<le> 20"
  shows "valve_of (fixture_data ! k) = None"
proof -
  have "list_all (\<lambda>r. valve_of r = None) (take 21 fixture_data)" by code_simp
  then have "\<forall>n<length (take 21 fixture_data). valve_of (take 21 fixture_data ! n) = None"
    by (simp only: list_all_length)
  moreover have "k < length (take 21 fixture_data)" using assms by (simp add: fixture_data_length)
  ultimately have "valve_of (take 21 fixture_data ! k) = None" by blast
  with assms show ?thesis by simp
qed

lemma nth20: "fixture_data ! 20 = (21, 32, None)" by code_simp
lemma nth21: "fixture_data ! 21 = (22, 34, Some 5)" by code_simp

lemma nth0: "fixture_data ! 0 = (1, 0, None)" by code_simp
lemma nth1: "fixture_data ! Suc 0 = (2, 1, None)" by code_simp

subsection \<open>Valve mode where valve units are undefined\<close>

text \<open>
  Claim C5. Let \<open>g\<close> be a flow within the range of the table, the mode be valve, and let
  \<open>i\<close>, \<open>i + 1\<close> be the first pair of consecutive rows that brackets \<open>g\<close>, which is the pair
  the loop selects. If the valve entry of either row is undefined, the result is the valve
  entry of the lower row \<open>i\<close> when that entry is defined, and the message
  \<^verbatim>\<open>Out of range. Use next valid pipe size.\<close> otherwise. The result is never a zero put in
  the place of the undefined entry, nor an interpolated number.
\<close>

theorem valve_undefined_entry:
  assumes "1 \<le> g" and "g \<le> 500"
    and "lower ft = ''valve''"
    and "Suc i < length fixture_data"
    and "brackets (fixture_data ! i) (fixture_data ! Suc i) g"
    and "\<forall>j<i. \<not> brackets (fixture_data ! j) (fixture_data ! Suc j) g"
    and "valve_of (fixture_data ! i) = None \<or> valve_of (fixture_data ! Suc i) = None"
  shows "interpolate_fixture_units g ft =
           (case valve_of (fixture_data ! i) of
              Some v \<Rightarrow> Inr (Num v)
            | None \<Rightarrow> Inr (Msg ''Out of range. Use next valid pipe size.''))"
proof -
  have "first_bracket fixture_data g = Some (fixture_data ! i, fixture_data ! Suc i)"
    using assms(4,5,6) by (rule first_bracket_of_index)
  with assms(1,2) have "interpolate_fixture_units g ft =
      bracket_result (fixture_data ! i) (fixture_data ! Suc i) g ft"
    by (rule interpolate_in_range)
  with assms(3,7) show ?thesis by (simp add: bracket_result_valve)
qed

theorem valve_undefined_entry_witness:
  "(1::real) \<le> 1.5 \<and> (1.5::real) \<le> 500 \<and> lower ''Valve'' = ''valve'' \<and>
   Suc 0 < length fixture_data \<and>
   brackets (fixture_data ! 0) (fixture_data ! Suc 0) 1.5 \<and>
   valve_of (fixture_data ! 0) = None \<and>
   interpolate_fixture_units 1.5 ''Valve'' =
     Inr (Msg ''Out of range. Use next valid pipe size.'')"
proof -
  have r: "(1::real) \<le> 1.5 \<and> (1.5::real) \<le> 500" by simp
  have l: "lower ''Valve'' = ''valve''" by code_simp
  have n: "Suc 0 < length fixture_data" by (simp add: fixture_data_length)
  have b: "brackets (fixture_data ! 0) (fixture_data ! Suc 0) 1.5"
    by (simp add: nth0 nth1 brackets_def gpm_of_def)
  have v: "valve_of (fixture_data ! 0) = None" by (simp add: nth0 valve_of_def)
  from valve_undefined_entry [of "1.5" "''Valve''" 0] r l n b v
  have "interpolate_fixture_units 1.5 ''Valve'' =
      Inr (Msg ''Out of range. Use next valid pipe size.'')"
    by simp
  with r l n b v show ?thesis by blast
qed

text \<open>
  On this table the undefined entries are those of the rows up to 21 GPM, so the case arises
  exactly for the flows from 1 to 22 GPM, where the lower row of the selected pair never has
  a valve entry: the result is the message. The branch that returns the lower entry is
  reached on other tables, as the second lemma shows on a table of two rows.
\<close>

lemma valve_low_flow:
  assumes "1 \<le> g" "g \<le> 22" "lower ft = ''valve''"
  shows "interpolate_fixture_units g ft = Inr (Msg ''Out of range. Use next valid pipe size.'')"
proof -
  from assms have range: "1 \<le> g" "g \<le> 500" by simp_all
  then obtain r1 r2 where fb: "first_bracket fixture_data g = Some (r1, r2)"
    using first_bracket_in_range by blast
  from first_bracket_index[OF fb] obtain i where i: "Suc i < length fixture_data"
    "r1 = fixture_data ! i" "r2 = fixture_data ! Suc i"
    "\<forall>j<i. \<not> brackets (fixture_data ! j) (fixture_data ! Suc j) g" by blast
  have br: "brackets r1 r2 g" using fb by (rule first_bracket_brackets)
  have "i \<le> 20"
  proof (rule ccontr)
    assume "\<not> i \<le> 20"
    then have big: "21 \<le> i" by simp
    have "gpm_of (fixture_data ! 21) \<le> gpm_of (fixture_data ! i)"
    proof (cases "i = 21")
      case True then show ?thesis by simp
    next
      case False
      with big have "21 < i" by simp
      then show ?thesis using fixture_data_flow_less[of 21 i] i(1) by simp
    qed
    then have "22 \<le> gpm_of r1" by (simp add: nth21 gpm_of_def i(2))
    with br assms(2) have g22: "g = 22" by (simp add: brackets_def)
    have "brackets (fixture_data ! 20) (fixture_data ! Suc 20) g"
      using g22 by (simp add: nth20 nth21 brackets_def gpm_of_def)
    moreover have "20 < i" using big by simp
    ultimately show False using i(4) by blast
  qed
  then have none: "valve_of r1 = None" using i(2) by (simp add: low_rows_no_valve)
  have "interpolate_fixture_units g ft = bracket_result r1 r2 g ft"
    using range fb by (rule interpolate_in_range)
  with none assms(3) show ?thesis by (simp add: bracket_result_valve)
qed

lemma lower_bound_entry_example:
  "scan_rows [(1, 0, Some 3), (2, 1, None)] 1.5 ''valve'' = Inr (Num 3)"
  by code_simp

subsection \<open>Out-of-range flows and unknown modes\<close>

text \<open>
  Claim C6. For every flow strictly below 1 GPM or strictly above 500 GPM, whatever the mode,
  the result is the string \<^verbatim>\<open>Out of Range.\<close>, which is not a number. For every flow within
  the range and every mode whose lowercase form is neither \<^verbatim>\<open>tank\<close> nor \<^verbatim>\<open>valve\<close>, the
  result is the string \<^verbatim>\<open>Error: Invalid flush type.\<close>, different from the out-of-range
  string, from the next-size message and from every number.
\<close>

theorem out_of_range_and_invalid_mode:
  "((g < 1 \<or> 500 < g) \<longrightarrow>
      interpolate_fixture_units g ft = Inr (Msg ''Out of Range.'') \<and>
      (\<forall>n. interpolate_fixture_units g ft \<noteq> Inr (Num n))) \<and>
   (1 \<le> g \<and> g \<le> 500 \<and> lower ft \<noteq> ''tank'' \<and> lower ft \<noteq> ''valve'' \<longrightarrow>
      interpolate_fixture_units g ft = Inr (Msg ''Error: Invalid flush type.'') \<and>
      interpolate_fixture_units g ft \<noteq> Inr (Msg ''Out of Range.'') \<and>
      interpolate_fixture_units g ft \<noteq> Inr (Msg ''Out of range. Use next valid pipe size.'') \<and>
      (\<forall>n. interpolate_fixture_units g ft \<noteq> Inr (Num n)))"
proof (intro conjI impI)
  assume "g < 1 \<or> 500 < g"
  then have r: "interpolate_fixture_units g ft = Inr (Msg ''Out of Range.'')"
    by (rule interpolate_out_of_range)
  show "interpolate_fixture_units g ft = Inr (Msg ''Out of Range.'')" by (rule r)
  show "\<forall>n. interpolate_fixture_units g ft \<noteq> Inr (Num n)" by (simp add: r)
next
  assume a: "1 \<le> g \<and> g \<le> 500 \<and> lower ft \<noteq> ''tank'' \<and> lower ft \<noteq> ''valve''"
  then obtain r1 r2 where fb: "first_bracket fixture_data g = Some (r1, r2)"
    using first_bracket_in_range by blast
  with a have "interpolate_fixture_units g ft = bracket_result r1 r2 g ft"
    by (simp add: interpolate_in_range)
  with a have r: "interpolate_fixture_units g ft = Inr (Msg ''Error: Invalid flush type.'')"
    by (simp add: bracket_result_invalid)
  show "interpolate_fixture_units g ft = Inr (Msg ''Error: Invalid flush type.'')" by (rule r)
  show "interpolate_fixture_units g ft \<noteq> Inr (Msg ''Out of Range.'')" by (simp add: r)
  show "interpolate_fixture_units g ft \<noteq> Inr (Msg ''Out of range. Use next valid pipe size.'')"
    by (simp add: r)
  show "\<forall>n. interpolate_fixture_units g ft \<noteq> Inr (Num n)" by (simp add: r)
qed

theorem out_of_range_and_invalid_mode_witness:
  "((0.5::real) < 1 \<or> 500 < (0.5::real)) \<and>
   interpolate_fixture_units 0.5 ''tank'' = Inr (Msg ''Out of Range.'') \<and>
   ((501::real) < 1 \<or> 500 < (501::real)) \<and>
   interpolate_fixture_units 501 ''valve'' = Inr (Msg ''Out of Range.'') \<and>
   (1::real) \<le> 10 \<and> (10::real) \<le> 500 \<and>
   lower ''sink'' \<noteq> ''tank'' \<and> lower ''sink'' \<noteq> ''valve'' \<and>
   interpolate_fixture_units 10 ''sink'' = Inr (Msg ''Error: Invalid flush type.'')"
proof -
  have l: "lower ''sink'' \<noteq> ''tank'' \<and> lower ''sink'' \<noteq> ''valve''" by code_simp
  have h1: "(0.5::real) < 1 \<or> 500 < (0.5::real)" by simp
  have h2: "(501::real) < 1 \<or> 500 < (501::real)" by simp
  have h3: "(1::real) \<le> 10 \<and> (10::real) \<le> 500" by simp
  from out_of_range_and_invalid_mode [of "0.5" "''tank''"] h1
  have a: "interpolate_fixture_units 0.5 ''tank'' = Inr (Msg ''Out of Range.'')" by blast
  from out_of_range_and_invalid_mode [of 501 "''valve''"] h2
  have b: "interpolate_fixture_units 501 ''valve'' = Inr (Msg ''Out of Range.'')" by blast
  from out_of_range_and_invalid_mode [of 10 "''sink''"] h3 l
  have c: "interpolate_fixture_units 10 ''sink'' = Inr (Msg ''Error: Invalid flush type.'')"
    by blast
  from l h1 h2 h3 a b c show ?thesis by blast
qed

subsection \<open>Flows equal to a breakpoint\<close>

text \<open>
  Claim C9. At exactly 22 GPM in valve mode the result is the message
  \<^verbatim>\<open>Out of range. Use next valid pipe size.\<close> and not the valve value 5 that the row of
  22 GPM stores: the pair of the rows of 21 and 22 GPM brackets the flow and comes first,
  and its lower valve entry is undefined. More generally, for the flow of any interior
  row \<open>i\<close> of the table, the pair \<open>i - 1\<close>, \<open>i\<close> that ends at this row brackets the flow, no
  earlier pair does, and the result is the loop body on that pair.
\<close>

theorem breakpoint_selects_lower_bracket:
  "interpolate_fixture_units 22 ''valve'' = Inr (Msg ''Out of range. Use next valid pipe size.'') \<and>
   fixture_data ! 21 = (22, 34, Some 5) \<and>
   (0 < i \<and> Suc i < length fixture_data \<longrightarrow>
      brackets (fixture_data ! (i - 1)) (fixture_data ! i) (real_of_int (gpm_of (fixture_data ! i))) \<and>
      (\<forall>j<i - 1. \<not> brackets (fixture_data ! j) (fixture_data ! Suc j)
                       (real_of_int (gpm_of (fixture_data ! i)))) \<and>
      interpolate_fixture_units (real_of_int (gpm_of (fixture_data ! i))) ft =
        bracket_result (fixture_data ! (i - 1)) (fixture_data ! i)
          (real_of_int (gpm_of (fixture_data ! i))) ft)"
proof (intro conjI impI)
  show "interpolate_fixture_units 22 ''valve'' =
      Inr (Msg ''Out of range. Use next valid pipe size.'')"
    by code_simp
  show "fixture_data ! 21 = (22, 34, Some 5)" by (rule nth21)
next
  assume a: "0 < i \<and> Suc i < length fixture_data"
  then have i: "0 < i" "i < length fixture_data" by simp_all
  let ?g = "real_of_int (gpm_of (fixture_data ! i))"
  have fb: "first_bracket fixture_data ?g = Some (fixture_data ! (i - 1), fixture_data ! i)"
    using fixture_data_sorted i by (rule first_bracket_at_breakpoint)
  show "brackets (fixture_data ! (i - 1)) (fixture_data ! i) ?g"
    using fb by (rule first_bracket_brackets)
  show "\<forall>j<i - 1. \<not> brackets (fixture_data ! j) (fixture_data ! Suc j) ?g"
  proof (intro allI impI)
    fix j assume "j < i - 1"
    then have "Suc j < i" by simp
    then have "gpm_of (fixture_data ! Suc j) < gpm_of (fixture_data ! i)"
      using i(2) by (rule fixture_data_flow_less)
    then show "\<not> brackets (fixture_data ! j) (fixture_data ! Suc j) ?g"
      by (simp add: brackets_def)
  qed
  have "1 \<le> ?g" "?g \<le> 500" using fixture_data_flow_bounds[OF i(2)] by simp_all
  then show "interpolate_fixture_units ?g ft =
      bracket_result (fixture_data ! (i - 1)) (fixture_data ! i) ?g ft"
    using fb by (rule interpolate_in_range)
qed

theorem breakpoint_selects_lower_bracket_witness:
  "(0::nat) < 21 \<and> Suc 21 < length fixture_data \<and>
   brackets (fixture_data ! 20) (fixture_data ! 21) 22 \<and>
   interpolate_fixture_units 22 ''valve'' =
     bracket_result (fixture_data ! 20) (fixture_data ! 21) 22 ''valve''"
proof -
  have h: "(0::nat) < 21 \<and> Suc 21 < length fixture_data" by (simp add: fixture_data_length)
  have g: "real_of_int (gpm_of (fixture_data ! 21)) = 22" by (simp add: nth21 gpm_of_def)
  have p: "(21::nat) - 1 = 20" by simp
  from breakpoint_selects_lower_bracket [of 21 "''valve''"] h
  have "brackets (fixture_data ! (21 - 1)) (fixture_data ! 21)
          (real_of_int (gpm_of (fixture_data ! 21))) \<and>
        interpolate_fixture_units (real_of_int (gpm_of (fixture_data ! 21))) ''valve'' =
          bracket_result (fixture_data ! (21 - 1)) (fixture_data ! 21)
            (real_of_int (gpm_of (fixture_data ! 21))) ''valve''"
    by blast
  then have "brackets (fixture_data ! 20) (fixture_data ! 21) 22 \<and>
        interpolate_fixture_units 22 ''valve'' =
          bracket_result (fixture_data ! 20) (fixture_data ! 21) 22 ''valve''"
    unfolding g p .
  with h show ?thesis by blast
qed

subsection \<open>The mode is read in lowercase\<close>

lemma bracket_result_lower:
  assumes "lower ft = lower ft'"
  shows "bracket_result r1 r2 g ft = bracket_result r1 r2 g ft'"
  unfolding bracket_result_def assms ..

lemma scan_rows_lower:
  assumes "lower ft = lower ft'"
  shows "scan_rows rows g ft = scan_rows rows g ft'"
  by (simp add: scan_rows_first_bracket bracket_result_lower[OF assms] split: option.split)

lemma interpolate_lower:
  assumes "lower ft = lower ft'"
  shows "interpolate_fixture_units g ft = interpolate_fixture_units g ft'"
  by (simp add: interpolate_fixture_units_def scan_rows_lower[OF assms])

lemma floor_interp_not_msg: "floor_interp v1 v2 g gpm1 gpm2 \<noteq> Inr (Msg m)"
  by (simp add: floor_interp_def py_truediv_def)

text \<open>
  Claim C10. The mode is compared after \<^verbatim>\<open>lower()\<close>: a string whose lowercase form is
  \<^verbatim>\<open>tank\<close>, such as \<^verbatim>\<open>Tank\<close> or \<^verbatim>\<open>TANK\<close>, gives the result of \<^verbatim>\<open>tank\<close>, and likewise
  for \<^verbatim>\<open>valve\<close>; for a flow within the range, the result is the invalid-mode message
  exactly when the lowercase form is neither of the two.
\<close>

theorem mode_case_insensitive:
  "(lower ft = ''tank'' \<longrightarrow> interpolate_fixture_units g ft = interpolate_fixture_units g ''tank'') \<and>
   (lower ft = ''valve'' \<longrightarrow> interpolate_fixture_units g ft = interpolate_fixture_units g ''valve'') \<and>
   (1 \<le> g \<and> g \<le> 500 \<longrightarrow>
      (interpolate_fixture_units g ft = Inr (Msg ''Error: Invalid flush type.'') \<longleftrightarrow>
         lower ft \<noteq> ''tank'' \<and> lower ft \<noteq> ''valve'')) \<and>
   lower ''Tank'' = ''tank'' \<and> lower ''TANK'' = ''tank'' \<and>
   lower ''Valve'' = ''valve'' \<and> lower ''VALVE'' = ''valve''"
proof (intro conjI impI)
  assume "lower ft = ''tank''"
  then have "lower ft = lower ''tank''" by (simp add: lower_tank)
  then show "interpolate_fixture_units g ft = interpolate_fixture_units g ''tank''"
    by (rule interpolate_lower)
next
  assume "lower ft = ''valve''"
  then have "lower ft = lower ''valve''" by (simp add: lower_valve)
  then show "interpolate_fixture_units g ft = interpolate_fixture_units g ''valve''"
    by (rule interpolate_lower)
next
  assume range: "1 \<le> g \<and> g \<le> 500"
  then obtain r1 r2 where fb: "first_bracket fixture_data g = Some (r1, r2)"
    using first_bracket_in_range by blast
  with range have eq: "interpolate_fixture_units g ft = bracket_result r1 r2 g ft"
    by (simp add: interpolate_in_range)
  show "interpolate_fixture_units g ft = Inr (Msg ''Error: Invalid flush type.'') \<longleftrightarrow>
      lower ft \<noteq> ''tank'' \<and> lower ft \<noteq> ''valve''"
  proof
    assume inv: "interpolate_fixture_units g ft = Inr (Msg ''Error: Invalid flush type.'')"
    show "lower ft \<noteq> ''tank'' \<and> lower ft \<noteq> ''valve''"
    proof (intro conjI notI)
      assume "lower ft = ''tank''"
      with inv eq show False by (simp add: bracket_result_tank floor_interp_not_msg)
    next
      assume "lower ft = ''valve''"
      with inv eq show False
        by (simp add: bracket_result_valve floor_interp_not_msg split: if_splits option.splits)
    qed
  next
    assume "lower ft \<noteq> ''tank'' \<and> lower ft \<noteq> ''valve''"
    with eq show "interpolate_fixture_units g ft = Inr (Msg ''Error: Invalid flush type.'')"
      by (simp add: bracket_result_invalid)
  qed
next
  show "lower ''Tank'' = ''tank''" by code_simp
  show "lower ''TANK'' = ''tank''" by code_simp
  show "lower ''Valve'' = ''valve''" by code_simp
  show "lower ''VALVE'' = ''valve''" by code_simp
qed

theorem mode_case_insensitive_witness:
  "lower ''Tank'' = ''tank'' \<and>
   interpolate_fixture_units 22.5 ''Tank'' = interpolate_fixture_units 22.5 ''tank'' \<and>
   lower ''VALVE'' = ''valve'' \<and>
   interpolate_fixture_units 30 ''VALVE'' = interpolate_fixture_units 30 ''valve'' \<and>
   (1::real) \<le> 10 \<and> (10::real) \<le> 500 \<and>
   lower ''sink'' \<noteq> ''tank'' \<and> lower ''sink'' \<noteq> ''valve'' \<and>
   interpolate_fixture_units 10 ''sink'' = Inr (Msg ''Error: Invalid flush type.'')"
proof -
  have t: "lower ''Tank'' = ''tank''" by code_simp
  have v: "lower ''VALVE'' = ''valve''" by code_simp
  have s: "lower ''sink'' \<noteq> ''tank'' \<and> lower ''sink'' \<noteq> ''valve''" by code_simp
  have r: "(1::real) \<le> 10 \<and> (10::real) \<le> 500" by simp
  from mode_case_insensitive [of "''Tank''" "22.5"] t
  have a: "interpolate_fixture_units 22.5 ''Tank'' = interpolate_fixture_units 22.5 ''tank''"
    by blast
  from mode_case_insensitive [of "''VALVE''" 30] v
  have b: "interpolate_fixture_units 30 ''VALVE'' = interpolate_fixture_units 30 ''valve''"
    by blast
  from mode_case_insensitive [of "''sink''" 10] s r
  have c: "interpolate_fixture_units 10 ''sink'' = Inr (Msg ''Error: Invalid flush type.'')"
    by blast
  from t v s r a b c show ?thesis by blast
qed

section \<open>The ordering of the table\<close>

text \<open>
  Claim C3. The invariant of the table asks, over all pairs of consecutive rows, for
  strictly increasing flows, non-decreasing tank units and non-decreasing valve units where
  they are defined. The flows are strictly increasing, but the row of 280 GPM holds 2583 for
  both columns, between 1500 at 270 GPM and 1668 at 290 GPM: neither column is
  non-decreasing.
\<close>

theorem fixture_data_order_broken_at_280:
  "flows_increasing fixture_data \<and>
   fixture_data ! 105 = (270, 1500, Some 1500) \<and>
   fixture_data ! 106 = (280, 2583, Some 2583) \<and>
   fixture_data ! 107 = (290, 1668, Some 1668) \<and>
   \<not> tank_nondecreasing fixture_data \<and>
   \<not> valve_nondecreasing fixture_data"
proof (intro conjI)
  show "flows_increasing fixture_data" by (rule fixture_data_flows_increasing)
  show "fixture_data ! 105 = (270, 1500, Some 1500)" by code_simp
  show "fixture_data ! 106 = (280, 2583, Some 2583)" by code_simp
  show "fixture_data ! 107 = (290, 1668, Some 1668)" by code_simp
  show "\<not> tank_nondecreasing fixture_data" by code_simp
  show "\<not> valve_nondecreasing fixture_data" by code_simp
qed

text \<open>The step from 280 to 290 GPM is the only descent: the rows before it and the rows
  after it are in order.\<close>

lemma fixture_data_single_descent:
  "tank_nondecreasing (take 107 fixture_data) \<and> tank_nondecreasing (drop 107 fixture_data) \<and>
   valve_nondecreasing (take 107 fixture_data) \<and> valve_nondecreasing (drop 107 fixture_data)"
  by code_simp

section \<open>Properties of the fluid-dynamic equations\<close>

subsection \<open>Laminar friction factor\<close>

text \<open>
  Claim C2. For every Reynolds number below 2000 the friction factor returned is the value
  of \<^verbatim>\<open>64 / re\<close>, whatever the roughness, the diameter, the initial guess and the root
  finder are: the root finder is not consulted. The value is Python's: at \<open>re = 0\<close> the
  division raises, and for every other \<open>re\<close> it is the number \<open>64 / re\<close>.
\<close>

theorem laminar_closed_form:
  assumes "re < 2000"
  shows "friction_factor_solver fs re eps d g = py_truediv 64 re \<and>
         (re \<noteq> 0 \<longrightarrow> friction_factor_solver fs re eps d g = Inr (64 / re))"
  using assms by (simp add: friction_factor_solver_def py_truediv_def)

theorem laminar_closed_form_witness:
  "(1000::real) < 2000 \<and> (1000::real) \<noteq> 0 \<and>
   friction_factor_solver stalled_fsolve 1000 0.00006 1.025 0.02 = Inr (64 / 1000)"
proof -
  have h: "(1000::real) < 2000" by simp
  have n: "(1000::real) \<noteq> 0" by simp
  from laminar_closed_form [OF h, of stalled_fsolve "0.00006" "1.025" "0.02"] n
  have "friction_factor_solver stalled_fsolve 1000 0.00006 1.025 0.02 = Inr (64 / 1000)"
    by blast
  with h n show ?thesis by blast
qed

subsection \<open>Darcy-Weisbach head loss\<close>

text \<open>
  Claim C7. For every friction factor \<open>f\<close>, velocity \<open>v\<close> and diameter \<open>d\<close> in inches, the head
  loss returned is the value of \<open>f * 100 * v\<^sup>2 / (D_ft * 2 * g)\<close> with \<open>D_ft = d / 12\<close> and
  \<open>g = 32.174\<close>. The value is Python's: the division raises at \<open>d = 0\<close>, and for every other
  diameter it is that number.
\<close>

theorem darcy_weisbach_formula:
  "darcy_weisbach_pressure_drop f v d = py_truediv (f * 100 * v\<^sup>2) ((d / 12) * 2 * 32.174) \<and>
   (d \<noteq> 0 \<longrightarrow>
      darcy_weisbach_pressure_drop f v d = Inr (f * 100 * v\<^sup>2 / ((d / 12) * 2 * 32.174)))"
proof
  show eq: "darcy_weisbach_pressure_drop f v d =
      py_truediv (f * 100 * v\<^sup>2) ((d / 12) * 2 * 32.174)"
    by (simp only: darcy_weisbach_pressure_drop_def GRAVITY_def Let_def)
  show "d \<noteq> 0 \<longrightarrow>
      darcy_weisbach_pressure_drop f v d = Inr (f * 100 * v\<^sup>2 / ((d / 12) * 2 * 32.174))"
  proof
    assume "d \<noteq> 0"
    then have "(d / 12) * 2 * 32.174 \<noteq> 0" by simp
    then show "darcy_weisbach_pressure_drop f v d =
        Inr (f * 100 * v\<^sup>2 / ((d / 12) * 2 * 32.174))"
      unfolding eq py_truediv_def by (rule if_not_P)
  qed
qed

theorem darcy_weisbach_formula_witness:
  "(1.025::real) \<noteq> 0 \<and>
   darcy_weisbach_pressure_drop 0.02 5 1.025 =
     Inr (0.02 * 100 * 5\<^sup>2 / ((1.025 / 12) * 2 * 32.174))"
proof -
  have n: "(1.025::real) \<noteq> 0" by simp
  from darcy_weisbach_formula [of "0.02" 5 "1.025"] n
  have "darcy_weisbach_pressure_drop 0.02 5 1.025 =
      Inr (0.02 * 100 * 5\<^sup>2 / ((1.025 / 12) * 2 * 32.174))"
    by blast
  with n show ?thesis by blast
qed

end
